theory Spec2Isabelle
  imports Complex_Main
begin

section \<open>Safety metrics processor: data model\<close>

text \<open>
  The development embeds \<^verbatim>\<open>src/safety-metrics/process_safety_metrics.py\<close>.
  Python floats are read as real numbers (so \<open>0.01\<close> is the rational 1/100 and
  \<open>np.exp\<close>, \<open>np.log\<close> are the real functions); pandas timestamps are real numbers
  of seconds on the naive local time line, with \<open>t = 0\<close> a midnight.

  A raw record holds what the coercing parsers of \<^verbatim>\<open>process_crime_data\<close> return for
  its fields: \<^verbatim>\<open>pd.to_datetime(..., errors='coerce')\<close> gives NaT (\<open>None\<close>) for an
  unparsable date and \<^verbatim>\<open>pd.to_numeric(..., errors='coerce')\<close> gives NaN (\<open>None\<close>)
  for an unparsable coordinate.
\<close>

record raw_record =
  raw_date_occ :: "real option"
  raw_lat :: "real option"
  raw_lon :: "real option"
  raw_crm_cd :: string

text \<open>A row of the data frame returned by \<^verbatim>\<open>process_crime_data\<close>.\<close>

record crime_record =
  crm_cd :: string
  hour :: int
  days_ago :: real
  time_weight :: real
  lat :: real
  lon :: real

text \<open>
  The result of \<^verbatim>\<open>process_crime_data\<close>: the frame, and the three counts the function
  prints (\<^verbatim>\<open>Removed {invalid_dates} invalid dates and {future_dates} future dates\<close>,
  \<^verbatim>\<open>Removed {invalid_coords} records with invalid coordinates\<close>).
\<close>

record processed =
  frame :: "crime_record list"
  invalid_dates :: nat
  future_dates :: nat
  invalid_coords :: nat

section \<open>Ingestion and temporal weighting (\<^verbatim>\<open>process_crime_data\<close>)\<close>

text \<open>\<^verbatim>\<open>Series.between(lo, hi)\<close>: inclusive on both sides.\<close>

definition between :: "real \<Rightarrow> real \<Rightarrow> real \<Rightarrow> bool" where
  "between x lo hi \<longleftrightarrow> lo \<le> x \<and> x \<le> hi"

text \<open>The same on a coerced column: NaN is in no interval.\<close>

definition between_coerced :: "real option \<Rightarrow> real \<Rightarrow> real \<Rightarrow> bool" where
  "between_coerced x lo hi = (case x of None \<Rightarrow> False | Some v \<Rightarrow> between v lo hi)"

text \<open>\<^verbatim>\<open>df['date_occ'].notna() & (df['date_occ'] <= now)\<close>; a comparison with NaT is false.\<close>

definition date_kept :: "real \<Rightarrow> raw_record \<Rightarrow> bool" where
  "date_kept now r = (case raw_date_occ r of None \<Rightarrow> False | Some t \<Rightarrow> t \<le> now)"

definition date_future :: "real \<Rightarrow> raw_record \<Rightarrow> bool" where
  "date_future now r = (case raw_date_occ r of None \<Rightarrow> False | Some t \<Rightarrow> now < t)"

text \<open>\<^verbatim>\<open>np.exp(-df['days_ago'] * (np.log(2) / 180))\<close>\<close>

definition time_weight_of :: "real \<Rightarrow> real" where
  "time_weight_of d = exp (- d * (ln 2 / 180))"

text \<open>\<^verbatim>\<open>df['date_occ'].dt.hour\<close>\<close>

definition hour_of :: "real \<Rightarrow> int" where
  "hour_of t = \<lfloor>t / 3600\<rfloor> mod 24"

text \<open>\<^verbatim>\<open>(now - df['date_occ']).dt.total_seconds() / (24 * 3600)\<close>\<close>

definition days_ago_of :: "real \<Rightarrow> real \<Rightarrow> real" where
  "days_ago_of now t = (now - t) / (24 * 3600)"

text \<open>The columns added to a row that has passed all filters.\<close>

definition to_row :: "real \<Rightarrow> raw_record \<Rightarrow> crime_record option" where
  "to_row now r =
     (case (raw_date_occ r, raw_lat r, raw_lon r) of
        (Some t, Some la, Some lo) \<Rightarrow>
          Some \<lparr>crm_cd = raw_crm_cd r, hour = hour_of t,
                days_ago = days_ago_of now t,
                time_weight = time_weight_of (days_ago_of now t),
                lat = la, lon = lo\<rparr>
      | _ \<Rightarrow> None)"

definition in_la_bounds :: "raw_record \<Rightarrow> bool" where
  "in_la_bounds r \<longleftrightarrow>
     between_coerced (raw_lat r) 33.70 34.83 \<and> between_coerced (raw_lon r) (-118.67) (-117.65)"

definition process_crime_data :: "real \<Rightarrow> raw_record list \<Rightarrow> processed" where
  "process_crime_data now crime_data =
     (let n_invalid_dates = length (filter (\<lambda>r. raw_date_occ r = None) crime_data);
          n_future_dates = length (filter (date_future now) crime_data);
          df = filter (date_kept now) crime_data;
          n_invalid_coords = length (filter (\<lambda>r. raw_lat r = None \<or> raw_lon r = None) df);
          df = filter in_la_bounds df
      in \<lparr>frame = List.map_filter (to_row now) df,
          invalid_dates = n_invalid_dates,
          future_dates = n_future_dates,
          invalid_coords = n_invalid_coords\<rparr>)"

section \<open>Scoring (\<^verbatim>\<open>calculate_safety_metrics\<close>)\<close>

text \<open>
  A value of the \<^verbatim>\<open>SAFETY_METRICS\<close> dictionary. The key \<^verbatim>\<open>time_filter\<close> is present
  only for \<open>night\<close>; its absence is \<open>None\<close>.
\<close>

record metric_config =
  question :: string
  description :: string
  crime_codes :: "string list"
  time_filter :: "(int \<Rightarrow> bool) option"

text \<open>The entries of the \<^verbatim>\<open>SAFETY_METRICS\<close> dictionary, in the order they are written.\<close>

definition night_metric :: metric_config where
  "night_metric =
     \<lparr>question = ''Can I go outside after dark?'',
      description = ''Safety for pedestrians during evening/night hours'',
      crime_codes = [''210'', ''220'', ''230'', ''231'', ''235'', ''236'', ''250'', ''251'',
                     ''761'', ''762'', ''763'', ''860''],
      time_filter = Some (\<lambda>hour. hour \<ge> 18 \<or> hour < 6)\<rparr>"

definition vehicle_metric :: metric_config where
  "vehicle_metric =
     \<lparr>question = ''Can I park here safely?'',
      description = ''Risk of vehicle theft and break-ins'',
      crime_codes = [''330'', ''331'', ''410'', ''420'', ''421'', ''330'', ''331'', ''440'',
                     ''441'', ''442'', ''443'', ''444'', ''445''],
      time_filter = None\<rparr>"

definition child_metric :: metric_config where
  "child_metric =
     \<lparr>question = ''Are kids safe here?'',
      description = ''Overall safety concerning crimes that could affect children'',
      crime_codes = [''235'', ''236'', ''627'', ''760'', ''762'', ''922'', ''237'', ''812'',
                     ''813'', ''814'', ''815''],
      time_filter = None\<rparr>"

definition transit_metric :: metric_config where
  "transit_metric =
     \<lparr>question = ''Is it safe to use public transport?'',
      description = ''Safety at and around transit locations'',
      crime_codes = [''210'', ''220'', ''230'', ''231'', ''476'', ''946'', ''761'', ''762'',
                     ''763'', ''475'', ''352''],
      time_filter = None\<rparr>"

definition women_metric :: metric_config where
  "women_metric =
     \<lparr>question = ''Would I be harassed here?'',
      description = ''Assessment of crimes that disproportionately affect women'',
      crime_codes = [''121'', ''122'', ''815'', ''820'', ''821'', ''236'', ''626'', ''627'',
                     ''647'', ''860'', ''921'', ''922''],
      time_filter = None\<rparr>"

definition SAFETY_METRICS :: "(string \<times> metric_config) list" where
  "SAFETY_METRICS =
     [(''night'', night_metric), (''vehicle'', vehicle_metric), (''child'', child_metric),
      (''transit'', transit_metric), (''women'', women_metric)]"

text \<open>
  An emitted metric is a Python dictionary: an association list of keys and values in
  insertion order. \<open>PyTime t\<close> stands for the ISO 8601 string that
  \<^verbatim>\<open>isoformat()\<close> gives for the instant \<open>t\<close> (in seconds).
\<close>

datatype py_value = PyStr string | PyInt int | PyFloat real | PyTime real

type_synonym safety_metric = "(string \<times> py_value) list"

text \<open>
  The two effects of the scoring loop: \<^verbatim>\<open>uuid.uuid4()\<close> and \<^verbatim>\<open>datetime.now()\<close> are
  each called once per appended metric, so draw number \<open>k\<close> of either belongs to the metric
  appended at position \<open>k\<close> of the list \<^verbatim>\<open>metrics\<close>.
\<close>

record effects =
  uuid4 :: "nat \<Rightarrow> string"
  clock :: "nat \<Rightarrow> real"

text \<open>
  \<^verbatim>\<open>np.arange(start, stop, step)\<close> in real arithmetic: \<open>\<lceil>(stop - start) / step\<rceil>\<close> values
  \<open>start + i * step\<close>. The grid has 113 latitudes from 33.70 and 102 longitudes from
  -118.67; each names the cell \<open>[glat, glat + 0.01] \<times> [glon, glon + 0.01]\<close>.
\<close>

definition arange :: "real \<Rightarrow> real \<Rightarrow> real \<Rightarrow> real list" where
  "arange start stop step =
     map (\<lambda>i. start + real i * step) [0..<nat \<lceil>(stop - start) / step\<rceil>]"

definition lats :: "real list" where
  "lats = arange 33.70 34.83 0.01"

definition lons :: "real list" where
  "lons = arange (-118.67) (-117.65) 0.01"

text \<open>
  The two filters that select the rows of a metric, written once for the whole frame
  (citywide loop) and once for the rows of a cell:
  \<^verbatim>\<open>df[df['crm_cd'].isin(config['crime_codes'])]\<close>, then, if the metric has a time filter,
  \<^verbatim>\<open>crimes[crimes['hour'].apply(config['time_filter'])]\<close>.
\<close>

definition crimes_of_type :: "metric_config \<Rightarrow> crime_record list \<Rightarrow> crime_record list" where
  "crimes_of_type config df =
     (let crimes = filter (\<lambda>r. crm_cd r \<in> set (crime_codes config)) df
      in case time_filter config of
           None \<Rightarrow> crimes
         | Some f \<Rightarrow> filter (\<lambda>r. f (hour r)) crimes)"

text \<open>
  \<^verbatim>\<open>df['time_weight'].sum()\<close>. Where a sum of weights is a divisor and is 0, numpy yields
  \<open>nan\<close> or \<open>inf\<close> and HOL yields 0; by \<open>frame_weight_pos\<close> and \<open>weight_sum_pos\<close>
  below this does not happen on a frame made by \<^verbatim>\<open>process_crime_data\<close>, whose weights
  are positive.
\<close>

definition weight_sum :: "crime_record list \<Rightarrow> real" where
  "weight_sum df = sum_list (map time_weight df)"

definition citywide_rate :: "metric_config \<Rightarrow> crime_record list \<Rightarrow> real" where
  "citywide_rate config crime_data =
     (if length crime_data > 0
      then weight_sum (crimes_of_type config crime_data) / weight_sum crime_data
      else 0)"

definition citywide_rates :: "crime_record list \<Rightarrow> (string \<times> real) list" where
  "citywide_rates crime_data =
     map (\<lambda>(metric_type, config). (metric_type, citywide_rate config crime_data)) SAFETY_METRICS"

text \<open>
  The lookup \<^verbatim>\<open>citywide_rates[metric_type]\<close>. Both loops run over the same dictionary,
  so the key is always present (\<open>rate_for_citywide\<close>); the \<open>None\<close> branch is never taken.
\<close>

definition rate_for :: "(string \<times> real) list \<Rightarrow> string \<Rightarrow> real" where
  "rate_for rates metric_type = (case map_of rates metric_type of Some c \<Rightarrow> c | None \<Rightarrow> 0)"

text \<open>
  The rows of a cell: \<^verbatim>\<open>crime_data[lat.between(lat, lat + 0.01) & lon.between(lon, lon + 0.01)]\<close>.
\<close>

definition grid_crimes :: "crime_record list \<Rightarrow> real \<Rightarrow> real \<Rightarrow> crime_record list" where
  "grid_crimes crime_data glat glon =
     filter (\<lambda>r. between (lat r) glat (glat + 0.01) \<and> between (lon r) glon (glon + 0.01))
       crime_data"

text \<open>
  The body of the loop over the metrics of a non-empty cell, in the order of the source:
  relative rate, thresholds, counts and rates, trend, debug text, and the dictionary.
\<close>

definition local_weighted_rate :: "crime_record list \<Rightarrow> crime_record list \<Rightarrow> real" where
  "local_weighted_rate crimes grid = weight_sum crimes / weight_sum grid"

definition relative_rate_of :: "real \<Rightarrow> real \<Rightarrow> real" where
  "relative_rate_of local citywide = (if citywide > 0 then local / citywide else 1)"

definition risk_of :: "real \<Rightarrow> string \<times> int" where
  "risk_of relative_rate =
     (if relative_rate \<le> 0.3 then (''Low risk'', 8)
      else if relative_rate \<le> 0.7 then (''Medium risk'', 6)
      else if relative_rate \<le> 1.5 then (''High risk'', 4)
      else (''Maximum risk'', 2))"

definition recent_count :: "crime_record list \<Rightarrow> nat" where
  "recent_count crimes = length (filter (\<lambda>r. days_ago r \<le> 90) crimes)"

text \<open>
  \<^verbatim>\<open>crimes['days_ago'].max() or 1\<close>: the maximum, replaced by 1 when it is 0 (the only
  falsy float).
\<close>

definition days_covered :: "crime_record list \<Rightarrow> real" where
  "days_covered crimes = (let m = Max (set (map days_ago crimes)) in if m = 0 then 1 else m)"

definition recent_rate_of :: "nat \<Rightarrow> real" where
  "recent_rate_of recent_crimes = (if recent_crimes > 0 then real recent_crimes / 90 * 365 else 0)"

definition historical_rate_of :: "nat \<Rightarrow> real \<Rightarrow> real" where
  "historical_rate_of total_crimes days = real total_crimes / days * 365"

text \<open>
  The trend strings are the arrows U+2191, U+2193 and U+2192, given here by their UTF-8
  bytes.
\<close>

definition arrow_up :: string where
  "arrow_up = [CHR 0xE2, CHR 0x86, CHR 0x91]"

definition arrow_down :: string where
  "arrow_down = [CHR 0xE2, CHR 0x86, CHR 0x93]"

definition arrow_right :: string where
  "arrow_right = [CHR 0xE2, CHR 0x86, CHR 0x92]"

definition trend_of :: "real \<Rightarrow> real \<Rightarrow> string" where
  "trend_of recent_rate historical_rate =
     (if recent_rate > historical_rate * 1.2 then arrow_up
      else if recent_rate < historical_rate * 0.8 then arrow_down
      else arrow_right)"

text \<open>
  The f-string that builds \<^verbatim>\<open>debug_info\<close> prints two counts with \<^verbatim>\<open>str\<close> and the relative
  rate with \<^verbatim>\<open>:.2f\<close>, which on a real number is rounding to two decimals, ties to even.
\<close>

definition digit_char :: "nat \<Rightarrow> char" where
  "digit_char d = ''0123456789'' ! (d mod 10)"

function str_nat :: "nat \<Rightarrow> string" where
  "str_nat n = (if n < 10 then [digit_char n] else str_nat (n div 10) @ [digit_char (n mod 10)])"
  by pat_completeness auto
termination
  by (relation "measure id") auto

declare str_nat.simps [simp del]

definition round_half_even :: "real \<Rightarrow> int" where
  "round_half_even x =
     (let f = \<lfloor>x\<rfloor>; d = x - of_int f
      in if d < 1 / 2 then f else if d > 1 / 2 then f + 1 else if even f then f else f + 1)"

definition format_2f :: "real \<Rightarrow> string" where
  "format_2f x =
     (let n = nat (round_half_even (\<bar>x\<bar> * 100))
      in (if x < 0 then ''-'' else '''') @ str_nat (n div 100) @ ''.''
         @ [digit_char (n div 10), digit_char n])"

definition debug_info :: "nat \<Rightarrow> nat \<Rightarrow> string \<Rightarrow> real \<Rightarrow> string" where
  "debug_info total_crimes recent_crimes trend relative_rate =
     '' [Debug: '' @ str_nat total_crimes @ '' incidents (''
     @ str_nat recent_crimes @ '' in last 90 days) '' @ trend @ '', ''
     @ format_2f relative_rate @ ''x city average]''"

definition cell_metric ::
  "effects \<Rightarrow> nat \<Rightarrow> (string \<times> real) list \<Rightarrow> crime_record list \<Rightarrow> real \<Rightarrow> real
     \<Rightarrow> string \<Rightarrow> metric_config \<Rightarrow> crime_record list \<Rightarrow> safety_metric" where
  "cell_metric eff k rates grid glat glon metric_type config crimes =
     (let relative_rate =
            relative_rate_of (local_weighted_rate crimes grid) (rate_for rates metric_type);
          risk_level = fst (risk_of relative_rate);
          score = snd (risk_of relative_rate);
          recent_crimes = recent_count crimes;
          total_crimes = length crimes;
          recent_rate = recent_rate_of recent_crimes;
          historical_rate = historical_rate_of total_crimes (days_covered crimes);
          trend = trend_of recent_rate historical_rate;
          now_utc = clock eff k;
          expires_utc = now_utc + 30 * 86400
      in [(''id'', PyStr (uuid4 eff k)),
          (''latitude'', PyFloat (glat + 0.005)),
          (''longitude'', PyFloat (glon + 0.005)),
          (''metric_type'', PyStr metric_type),
          (''score'', PyInt score),
          (''question'', PyStr (question config)),
          (''description'',
             PyStr (risk_level @ ''. '' @ description config
                    @ debug_info total_crimes recent_crimes trend relative_rate)),
          (''created_at'', PyTime now_utc),
          (''expires_at'', PyTime expires_utc)])"

text \<open>
  The three nested loops. A step either leaves \<^verbatim>\<open>metrics\<close> as it is (\<^verbatim>\<open>continue\<close>) or
  appends one dictionary.
\<close>

definition metric_step ::
  "effects \<Rightarrow> (string \<times> real) list \<Rightarrow> crime_record list \<Rightarrow> real \<Rightarrow> real
     \<Rightarrow> string \<times> metric_config \<Rightarrow> safety_metric list \<Rightarrow> safety_metric list" where
  "metric_step eff rates grid glat glon mc metrics =
     (let crimes = crimes_of_type (snd mc) grid
      in if length crimes = 0 then metrics
         else metrics @ [cell_metric eff (length metrics) rates grid glat glon (fst mc) (snd mc)
                           crimes])"

definition cell_step ::
  "effects \<Rightarrow> (string \<times> real) list \<Rightarrow> crime_record list \<Rightarrow> real \<Rightarrow> real
     \<Rightarrow> safety_metric list \<Rightarrow> safety_metric list" where
  "cell_step eff rates crime_data glat glon metrics =
     (let grid = grid_crimes crime_data glat glon
      in if length grid = 0 then metrics
         else fold (metric_step eff rates grid glat glon) SAFETY_METRICS metrics)"

definition calculate_safety_metrics :: "effects \<Rightarrow> crime_record list \<Rightarrow> safety_metric list" where
  "calculate_safety_metrics eff crime_data =
     (let rates = citywide_rates crime_data
      in fold (\<lambda>glat. fold (\<lambda>glon. cell_step eff rates crime_data glat glon) lons) lats [])"

text \<open>The dictionary appended for a cell and a metric, at position \<open>k\<close> of the output.\<close>

definition scored :: "effects \<Rightarrow> nat \<Rightarrow> crime_record list \<Rightarrow> real \<Rightarrow> real \<Rightarrow> string \<times> metric_config \<Rightarrow> safety_metric" where
  "scored eff k df glat glon mc =
     cell_metric eff k (citywide_rates df) (grid_crimes df glat glon) glat glon (fst mc) (snd mc)
       (crimes_of_type (snd mc) (grid_crimes df glat glon))"

section \<open>Persistence (\<^verbatim>\<open>upload_to_supabase\<close>)\<close>

text \<open>
  The store is the table \<^verbatim>\<open>safety_metrics\<close>, a list of rows keyed by \<open>id\<close>.
  \<^verbatim>\<open>delete().gte('score', 0)\<close> removes the rows whose score is at least 0 and
  \<^verbatim>\<open>upsert(batch)\<close> replaces the row with the same \<open>id\<close> or appends a new one. Each
  \<^verbatim>\<open>execute()\<close> is one request; \<open>fails k\<close> tells whether request number \<open>k\<close> of
  the run raises, and a request that raises changes nothing. The \<^verbatim>\<open>try\<close> block turns
  the exception into the result \<open>False\<close>.
\<close>

type_synonym store = "safety_metric list"

definition score_gte :: "int \<Rightarrow> safety_metric \<Rightarrow> bool" where
  "score_gte n row =
     (case map_of row ''score'' of
        Some (PyInt s) \<Rightarrow> n \<le> s
      | Some (PyFloat s) \<Rightarrow> of_int n \<le> s
      | _ \<Rightarrow> False)"

definition delete_gte_score :: "int \<Rightarrow> store \<Rightarrow> store" where
  "delete_gte_score n st = filter (\<lambda>row. \<not> score_gte n row) st"

definition upsert_row :: "safety_metric \<Rightarrow> store \<Rightarrow> store" where
  "upsert_row row st =
     (if \<exists>old \<in> set st. map_of old ''id'' = map_of row ''id''
      then map (\<lambda>old. if map_of old ''id'' = map_of row ''id'' then row else old) st
      else st @ [row])"

definition upsert :: "safety_metric list \<Rightarrow> store \<Rightarrow> store" where
  "upsert batch st = fold upsert_row batch st"

function batches :: "'a list \<Rightarrow> 'a list list" where
  "batches xs = (if xs = [] then [] else take 50 xs # batches (drop 50 xs))"
  by pat_completeness auto
termination
  by (relation "measure length") auto

declare batches.simps [simp del]

fun upload_batches :: "(nat \<Rightarrow> bool) \<Rightarrow> nat \<Rightarrow> safety_metric list list \<Rightarrow> store \<Rightarrow> bool \<times> store" where
  "upload_batches fails k [] st = (True, st)"
| "upload_batches fails k (batch # rest) st =
     (if fails k then (False, st) else upload_batches fails (Suc k) rest (upsert batch st))"

definition upload_to_supabase :: "(nat \<Rightarrow> bool) \<Rightarrow> store \<Rightarrow> safety_metric list \<Rightarrow> bool \<times> store" where
  "upload_to_supabase fails st metrics =
     (if metrics = [] then (False, st)
      else if fails 0 then (False, st)
      else upload_batches fails 1 (batches metrics) (delete_gte_score 0 st))"

section \<open>Notions of the specification\<close>

text \<open>
  The survival condition as the specification words it: the date parsed and is not strictly
  in the future, both coordinates parsed and lie in the bounding box.
\<close>

definition survives :: "real \<Rightarrow> raw_record \<Rightarrow> bool" where
  "survives now r \<longleftrightarrow>
     (case raw_date_occ r of None \<Rightarrow> False | Some t \<Rightarrow> \<not> now < t)
     \<and> (case raw_lat r of None \<Rightarrow> False | Some la \<Rightarrow> 33.70 \<le> la \<and> la \<le> 34.83)
     \<and> (case raw_lon r of None \<Rightarrow> False | Some lo \<Rightarrow> -118.67 \<le> lo \<and> lo \<le> -117.65)"

text \<open>
  What the specification compares between two runs: a record without its generated
  identifier and its two timestamps.
\<close>

definition content_of :: "safety_metric \<Rightarrow> safety_metric" where
  "content_of x = filter (\<lambda>(key, v). key \<notin> {''id'', ''created_at'', ''expires_at''}) x"

section \<open>Sample inputs\<close>

text \<open>
  One vehicle theft at the reference time 0, strictly inside the cell with lower bounds
  (34, -118.01): the raw record, its row, the effects of the run and the one record emitted.
\<close>

definition sample_raw :: raw_record where
  "sample_raw = \<lparr>raw_date_occ = Some 0, raw_lat = Some 34.005, raw_lon = Some (-118.005), raw_crm_cd = ''330''\<rparr>"

definition sample_row :: crime_record where
  "sample_row = \<lparr>crm_cd = ''330'', hour = 0, days_ago = 0, time_weight = 1, lat = 34.005, lon = -118.005\<rparr>"


definition sample_metric :: safety_metric where
  "sample_metric =
     [(''id'', PyStr ''id-0''),
      (''latitude'', PyFloat 34.005),
      (''longitude'', PyFloat (-118.005)),
      (''metric_type'', PyStr ''vehicle''),
      (''score'', PyInt 4),
      (''question'', PyStr ''Can I park here safely?''),
      (''description'',
         PyStr (''High risk. Risk of vehicle theft and break-ins [Debug: 1 incidents (1 in last 90 days) ''
                @ arrow_down @ '', 1.00x city average]'')),
      (''created_at'', PyTime 0),
      (''expires_at'', PyTime 2592000)]"




definition outside_raw :: raw_record where
  "outside_raw = \<lparr>raw_date_occ = Some 0, raw_lat = Some 40, raw_lon = Some (-118.005),
     raw_crm_cd = ''330''\<rparr>"

text \<open>A stored row of an earlier run, and 51 new rows (two batches).\<close>

definition old_metric :: safety_metric where
  "old_metric = [(''id'', PyStr ''old''), (''score'', PyInt 6)]"

definition new_metrics :: "safety_metric list" where
  "new_metrics = map (\<lambda>i. [(''id'', PyStr (str_nat i)), (''score'', PyInt 4)]) [0..<51]"

section \<open>Properties of ingestion\<close>

lemma frame_process_crime_data:
  "frame (process_crime_data now crime_data) =
     List.map_filter (to_row now) (filter in_la_bounds (filter (date_kept now) crime_data))"
  by (simp add: process_crime_data_def Let_def)

lemma in_frame_iff:
  "x \<in> set (frame (process_crime_data now crime_data)) \<longleftrightarrow>
     (\<exists>r \<in> set crime_data. date_kept now r \<and> in_la_bounds r \<and> to_row now r = Some x)"
  by (force simp: frame_process_crime_data List.map_filter_def)








lemma survives_iff: "survives now r \<longleftrightarrow> date_kept now r \<and> in_la_bounds r"
  by (auto simp: survives_def date_kept_def in_la_bounds_def between_coerced_def between_def
      split: option.splits)

lemma survives_to_row: "survives now r \<Longrightarrow> to_row now r \<noteq> None"
  by (auto simp: survives_def to_row_def split: option.splits)

lemma map_filter_all_Some:
  assumes "\<And>x. x \<in> set xs \<Longrightarrow> f x \<noteq> None"
  shows "map Some (List.map_filter f xs) = map f xs"
  using assms by (induction xs) (force simp: List.map_filter_simps split: option.splits)+

section \<open>The grid\<close>











lemma grid_crimes_subset: "set (grid_crimes df glat glon) \<subseteq> set df"
  by (auto simp: grid_crimes_def)












section \<open>Metrics, weights and rates\<close>















section \<open>The loops of \<^verbatim>\<open>calculate_safety_metrics\<close>\<close>


lemma fold_sound:
  assumes "\<And>y acc x. y \<in> set ys \<Longrightarrow> x \<in> set (f y acc) \<Longrightarrow> x \<in> set acc \<or> Q y x"
    and "x \<in> set (fold f ys acc)"
  shows "x \<in> set acc \<or> (\<exists>y \<in> set ys. Q y x)"
  using assms
proof (induction ys arbitrary: acc)
  case Nil
  then show ?case by simp
next
  case (Cons y ys)
  from Cons.prems(2) have "x \<in> set (fold f ys (f y acc))" by simp
  with Cons.IH [of "f y acc"] Cons.prems(1)
  have "x \<in> set (f y acc) \<or> (\<exists>z \<in> set ys. Q z x)" by (meson list.set_intros(2))
  with Cons.prems(1) [of y x acc] show ?case by auto
qed


lemma fold_related:
  assumes "\<And>y a b. R a b \<Longrightarrow> R (f y a) (g y b)" and "R a b"
  shows "R (fold f ys a) (fold g ys b)"
  using assms(2)
proof (induction ys arbitrary: a b)
  case Nil
  then show ?case by simp
next
  case (Cons y ys)
  then show ?case by (simp add: assms(1))
qed






lemma cell_step_sound:
  assumes "x \<in> set (cell_step eff (citywide_rates df) df glat glon acc)"
  shows "x \<in> set acc \<or> (\<exists>mc \<in> set SAFETY_METRICS. \<exists>k.
           crimes_of_type (snd mc) (grid_crimes df glat glon) \<noteq> [] \<and> x = scored eff k df glat glon mc)"
proof (cases "grid_crimes df glat glon = []")
  case True
  with assms show ?thesis by (simp add: cell_step_def)
next
  case False
  with assms have "x \<in> set (fold (metric_step eff (citywide_rates df) (grid_crimes df glat glon) glat glon)
      SAFETY_METRICS acc)"
    by (simp add: cell_step_def)
  then show ?thesis
  proof (rule fold_sound [rotated])
    fix mc acc' x'
    assume "x' \<in> set (metric_step eff (citywide_rates df) (grid_crimes df glat glon) glat glon mc acc')"
    then show "x' \<in> set acc' \<or> (\<exists>k. crimes_of_type (snd mc) (grid_crimes df glat glon) \<noteq> []
        \<and> x' = scored eff k df glat glon mc)"
      by (auto simp: metric_step_def Let_def scored_def split: if_splits)
  qed
qed

lemma calculate_sound:
  assumes "x \<in> set (calculate_safety_metrics eff df)"
  shows "\<exists>glat \<in> set lats. \<exists>glon \<in> set lons. \<exists>mc \<in> set SAFETY_METRICS. \<exists>k.
           crimes_of_type (snd mc) (grid_crimes df glat glon) \<noteq> [] \<and> x = scored eff k df glat glon mc"
proof -
  let ?Q = "\<lambda>glat glon x. \<exists>mc \<in> set SAFETY_METRICS. \<exists>k.
           crimes_of_type (snd mc) (grid_crimes df glat glon) \<noteq> [] \<and> x = scored eff k df glat glon mc"
  have row: "x \<in> set acc \<or> (\<exists>glon \<in> set lons. ?Q glat glon x)"
    if "x \<in> set (fold (\<lambda>glon. cell_step eff (citywide_rates df) df glat glon) lons acc)"
    for glat acc x
    using that
    by (rule fold_sound [rotated]) (rule cell_step_sound)
  from assms have "x \<in> set (fold (\<lambda>glat. fold (\<lambda>glon. cell_step eff (citywide_rates df) df glat glon) lons) lats [])"
    by (simp add: calculate_safety_metrics_def)
  then have "x \<in> set [] \<or> (\<exists>glat \<in> set lats. \<exists>glon \<in> set lons. ?Q glat glon x)"
    by (rule fold_sound [rotated]) (rule row)
  then show ?thesis by simp
qed








lemma content_of_cell_metric:
  "content_of (cell_metric eff k rates grid glat glon metric_type config crimes) =
   content_of (cell_metric eff' k' rates grid glat glon metric_type config crimes)"
  by (simp add: content_of_def cell_metric_def Let_def)

lemma content_of_metric_step:
  assumes "map content_of a = map content_of b"
  shows "map content_of (metric_step eff rates grid glat glon mc a) =
         map content_of (metric_step eff' rates grid glat glon mc b)"
  using assms content_of_cell_metric [of eff "length a" rates grid glat glon _ _ _ eff' "length b"]
  by (simp add: metric_step_def Let_def)

lemma content_of_cell_step:
  assumes "map content_of a = map content_of b"
  shows "map content_of (cell_step eff rates df glat glon a) =
         map content_of (cell_step eff' rates df glat glon b)"
proof (cases "grid_crimes df glat glon = []")
  case True
  with assms show ?thesis by (simp add: cell_step_def)
next
  case False
  have "map content_of (fold (metric_step eff rates (grid_crimes df glat glon) glat glon) SAFETY_METRICS a)
      = map content_of (fold (metric_step eff' rates (grid_crimes df glat glon) glat glon) SAFETY_METRICS b)"
    using assms
    by (rule fold_related [where R = "\<lambda>a b. map content_of a = map content_of b", rotated])
      (rule content_of_metric_step)
  with False show ?thesis by (simp add: cell_step_def)
qed

lemma content_of_calculate:
  "map content_of (calculate_safety_metrics eff df) = map content_of (calculate_safety_metrics eff' df)"
proof -
  let ?R = "\<lambda>a b. map content_of a = map content_of (b::safety_metric list)"
  have row: "?R (fold (\<lambda>glon. cell_step eff rates df glat glon) lons a)
               (fold (\<lambda>glon. cell_step eff' rates df glat glon) lons b)"
    if "?R a b" for a b glat rates
    using that by (rule fold_related [where R = ?R, rotated]) (rule content_of_cell_step)
  have "?R (fold (\<lambda>glat. fold (\<lambda>glon. cell_step eff (citywide_rates df) df glat glon) lons) lats [])
           (fold (\<lambda>glat. fold (\<lambda>glon. cell_step eff' (citywide_rates df) df glat glon) lons) lats [])"
    by (rule fold_related [where R = ?R, rotated]) (simp, rule row)
  then show ?thesis by (simp add: calculate_safety_metrics_def)
qed

section \<open>The upload loop\<close>

lemma upload_batches_prefix:
  "\<exists>j \<le> length bs. (\<forall>i<j. \<not> fails (k + i)) \<and> (j < length bs \<longrightarrow> fails (k + j))
     \<and> upload_batches fails k bs st = (j = length bs, fold upsert (take j bs) st)"
proof (induction bs arbitrary: k st)
  case Nil
  show ?case by simp
next
  case (Cons b bs)
  show ?case
  proof (cases "fails k")
    case True
    then show ?thesis by (intro exI [of _ 0]) simp
  next
    case False
    from Cons.IH [of "Suc k" "upsert b st"] obtain j where
      j: "j \<le> length bs" "\<forall>i<j. \<not> fails (Suc k + i)" "j < length bs \<longrightarrow> fails (Suc k + j)"
        "upload_batches fails (Suc k) bs (upsert b st) = (j = length bs, fold upsert (take j bs) (upsert b st))"
      by blast
    have "\<forall>i<Suc j. \<not> fails (k + i)"
    proof (intro allI impI)
      fix i assume "i < Suc j"
      then show "\<not> fails (k + i)" using False j(2) by (cases i) auto
    qed
    with j False show ?thesis by (intro exI [of _ "Suc j"]) simp
  qed
qed

lemma batches_Nil: "batches [] = []"
  by (simp add: batches.simps)

lemma concat_batches: "concat (batches xs) = xs"
proof (induction xs rule: batches.induct)
  case (1 xs)
  then show ?case by (cases "xs = []") (simp_all add: batches.simps [of xs] batches_Nil)
qed

lemma batches_sizes: "b \<in> set (batches xs) \<Longrightarrow> 0 < length b \<and> length b \<le> 50"
proof (induction xs rule: batches.induct)
  case (1 xs)
  show ?case
  proof (cases "xs = []")
    case True
    with "1.prems" show ?thesis by (simp add: batches_Nil)
  next
    case False
    with "1.prems" have "b = take 50 xs \<or> b \<in> set (batches (drop 50 xs))"
      by (simp add: batches.simps [of xs])
    with False "1.IH" show ?thesis by auto
  qed
qed

section \<open>The sample inputs, evaluated\<close>

lemma frame_sample: "frame (process_crime_data 0 [sample_raw]) = [sample_row]"
  by (simp add: frame_process_crime_data List.map_filter_def sample_raw_def sample_row_def
      date_kept_def in_la_bounds_def between_coerced_def between_def to_row_def hour_of_def
      days_ago_of_def time_weight_of_def)




lemma sample_row_fields:
  "crm_cd sample_row = ''330''" "hour sample_row = 0" "days_ago sample_row = 0"
  "time_weight sample_row = 1" "lat sample_row = 34.005" "lon sample_row = -118.005"
  by (simp_all add: sample_row_def)



lemma sample_grid: "grid_crimes [sample_row] 34 (-118.01) = [sample_row]"
  by (simp add: grid_crimes_def between_def sample_row_fields)






section \<open>Claims\<close>

subsection \<open>C1: records and grid cells\<close>




subsection \<open>C2: fields of an emitted record\<close>




subsection \<open>C3: relative rate, score and risk level\<close>



subsection \<open>C4: recent and historical rates, trend\<close>




subsection \<open>C5: time weight\<close>



subsection \<open>C6: presence of a metric\<close>



subsection \<open>C7: validation of raw records\<close>

text \<open>
  Claim C7, amended. The processed frame holds, in input order, exactly the rows of the
  raw records that survive: those whose date parsed and is not after the reference time
  and whose two coordinates parsed and lie in the bounding box. Nothing is raised for a
  failing record. The three counters count the records with an unparsable date, those with
  a future date, and those with an accepted date and an unparsable coordinate; no counter
  counts a record dropped for coordinates outside the box. Every row of every grid cell is
  the row of a surviving record.
\<close>

theorem ingestion_keeps_valid_records:
  "map Some (frame (process_crime_data now crime_data)) =
      map (to_row now) (filter (survives now) crime_data)
   \<and> invalid_dates (process_crime_data now crime_data) =
      length (filter (\<lambda>r. raw_date_occ r = None) crime_data)
   \<and> future_dates (process_crime_data now crime_data) =
      length (filter (\<lambda>r. case raw_date_occ r of None \<Rightarrow> False | Some t \<Rightarrow> now < t) crime_data)
   \<and> invalid_coords (process_crime_data now crime_data) =
      length (filter (\<lambda>r. (case raw_date_occ r of None \<Rightarrow> False | Some t \<Rightarrow> \<not> now < t)
                            \<and> (raw_lat r = None \<or> raw_lon r = None)) crime_data)
   \<and> (\<forall>glat glon. \<forall>x \<in> set (grid_crimes (frame (process_crime_data now crime_data)) glat glon).
         \<exists>r \<in> set crime_data. survives now r \<and> to_row now r = Some x)"
proof -
  have keep: "filter in_la_bounds (filter (date_kept now) crime_data) = filter (survives now) crime_data"
    by (simp add: survives_iff [abs_def] conj_commute)
  have rows: "map Some (frame (process_crime_data now crime_data)) =
      map (to_row now) (filter (survives now) crime_data)"
    unfolding frame_process_crime_data keep
    by (rule map_filter_all_Some) (simp add: survives_to_row)
  have c1: "invalid_dates (process_crime_data now crime_data) =
      length (filter (\<lambda>r. raw_date_occ r = None) crime_data)"
    by (simp add: process_crime_data_def Let_def)
  have c2: "future_dates (process_crime_data now crime_data) =
      length (filter (\<lambda>r. case raw_date_occ r of None \<Rightarrow> False | Some t \<Rightarrow> now < t) crime_data)"
    by (simp add: process_crime_data_def Let_def date_future_def [abs_def])
  have "(\<lambda>r. date_kept now r \<and> (raw_lat r = None \<or> raw_lon r = None)) =
      (\<lambda>r. (case raw_date_occ r of None \<Rightarrow> False | Some t \<Rightarrow> \<not> now < t)
                            \<and> (raw_lat r = None \<or> raw_lon r = None))"
    by (auto simp: date_kept_def fun_eq_iff split: option.splits)
  then have c3: "invalid_coords (process_crime_data now crime_data) =
      length (filter (\<lambda>r. (case raw_date_occ r of None \<Rightarrow> False | Some t \<Rightarrow> \<not> now < t)
                            \<and> (raw_lat r = None \<or> raw_lon r = None)) crime_data)"
    by (simp add: process_crime_data_def Let_def conj_commute)
  have cells: "\<exists>r \<in> set crime_data. survives now r \<and> to_row now r = Some x"
    if "x \<in> set (grid_crimes (frame (process_crime_data now crime_data)) glat glon)" for glat glon x
  proof -
    from that grid_crimes_subset have "x \<in> set (frame (process_crime_data now crime_data))"
      by blast
    then show ?thesis by (simp add: in_frame_iff survives_iff)
  qed
  from rows c1 c2 c3 cells show ?thesis by blast
qed

text \<open>
  Claim C7 as stated fails on counting: a record with a valid date and the parsable latitude
  40, outside the box, is dropped while all three counters stay 0.
\<close>

theorem uncounted_drop_counterexample:
  "raw_date_occ outside_raw = Some 0 \<and> raw_lat outside_raw = Some 40
   \<and> process_crime_data 0 [outside_raw] =
       \<lparr>frame = [], invalid_dates = 0, future_dates = 0, invalid_coords = 0\<rparr>"
  by (simp add: process_crime_data_def Let_def outside_raw_def List.map_filter_simps
      date_kept_def date_future_def in_la_bounds_def between_coerced_def between_def)

text \<open>
  The amended statement of C7 at the sample input.
\<close>

theorem ingestion_keeps_valid_records_witness:
  "sample_row \<in> set (grid_crimes (frame (process_crime_data 0 [sample_raw])) 34 (-118.01))
   \<and> sample_raw \<in> set [sample_raw] \<and> survives 0 sample_raw \<and> to_row 0 sample_raw = Some sample_row
   \<and> process_crime_data 0 [sample_raw] =
       \<lparr>frame = [sample_row], invalid_dates = 0, future_dates = 0, invalid_coords = 0\<rparr>"
proof -
  have g: "grid_crimes (frame (process_crime_data 0 [sample_raw])) 34 (-118.01) = [sample_row]"
    by (simp only: frame_sample sample_grid)
  then have m: "sample_row \<in> set (grid_crimes (frame (process_crime_data 0 [sample_raw])) 34 (-118.01))"
    by simp
  note t = ingestion_keeps_valid_records [of 0 "[sample_raw]"]
  from t have "\<exists>r \<in> set [sample_raw]. survives 0 r \<and> to_row 0 r = Some sample_row"
    using m by blast
  then have "survives 0 sample_raw \<and> to_row 0 sample_raw = Some sample_row" by simp
  moreover from t have "invalid_dates (process_crime_data 0 [sample_raw]) = 0"
    "future_dates (process_crime_data 0 [sample_raw]) = 0"
    "invalid_coords (process_crime_data 0 [sample_raw]) = 0"
    by (simp_all add: sample_raw_def)
  then have "process_crime_data 0 [sample_raw] =
       \<lparr>frame = [sample_row], invalid_dates = 0, future_dates = 0, invalid_coords = 0\<rparr>"
    using frame_sample by (cases "process_crime_data 0 [sample_raw]") simp
  ultimately show ?thesis using m by simp
qed

subsection \<open>C8: upload\<close>

text \<open>
  Claim C8, amended. \<^verbatim>\<open>upload_to_supabase\<close> returns \<open>False\<close> and leaves the store alone
  when there is nothing to upload or when the delete request fails. Otherwise the rows with
  score at least 0 are deleted and the metrics are written in consecutive batches of at most
  50, one request each, until the first failing request: the store then holds the deletion
  and the batches written so far, and the result is \<open>True\<close> exactly when every batch was
  written.
\<close>

theorem upload_writes_batch_prefix:
  "(metrics = [] \<longrightarrow> upload_to_supabase fails st metrics = (False, st))
   \<and> (metrics \<noteq> [] \<and> fails 0 \<longrightarrow> upload_to_supabase fails st metrics = (False, st))
   \<and> (metrics \<noteq> [] \<and> \<not> fails 0 \<longrightarrow>
        (\<exists>j \<le> length (batches metrics).
           (\<forall>i<j. \<not> fails (Suc i)) \<and> (j < length (batches metrics) \<longrightarrow> fails (Suc j))
           \<and> upload_to_supabase fails st metrics =
               (j = length (batches metrics),
                fold upsert (take j (batches metrics)) (delete_gte_score 0 st))))
   \<and> concat (batches metrics) = metrics
   \<and> (\<forall>b \<in> set (batches metrics). 0 < length b \<and> length b \<le> 50)"
proof -
  have "\<exists>j \<le> length (batches metrics).
           (\<forall>i<j. \<not> fails (Suc i)) \<and> (j < length (batches metrics) \<longrightarrow> fails (Suc j))
           \<and> upload_to_supabase fails st metrics =
               (j = length (batches metrics),
                fold upsert (take j (batches metrics)) (delete_gte_score 0 st))"
    if "metrics \<noteq> []" "\<not> fails 0"
    using that upload_batches_prefix [of "batches metrics" fails 1 "delete_gte_score 0 st"]
    by (simp add: upload_to_supabase_def)
  then show ?thesis
    using concat_batches [of metrics] batches_sizes [of _ metrics]
    by (auto simp: upload_to_supabase_def)
qed

text \<open>
  Claim C8 as stated fails. With 51 metrics and a failure of the second batch, the store
  is left with the first 50 new rows and without the old row; with a failure of the first
  batch it is left empty. Both runs return \<open>False\<close>.
\<close>

theorem partial_upload_counterexample:
  "upload_to_supabase (\<lambda>k. k = 2) [old_metric] new_metrics = (False, take 50 new_metrics)
   \<and> length new_metrics = 51
   \<and> upload_to_supabase (\<lambda>k. k = 1) [old_metric] new_metrics = (False, [])"
  by code_simp

text \<open>
  The amended statement of C8 for one metric: no failure, a failing delete, and an empty
  upload.
\<close>

theorem upload_writes_batch_prefix_witness:
  "[sample_metric] \<noteq> [] \<and> \<not> (\<lambda>k. False) (0::nat)
   \<and> upload_to_supabase (\<lambda>k. False) [old_metric] [sample_metric] = (True, [sample_metric])
   \<and> upload_to_supabase (\<lambda>k. k = 0) [old_metric] [sample_metric] = (False, [old_metric])
   \<and> upload_to_supabase (\<lambda>k. False) [old_metric] [] = (False, [old_metric])
   \<and> batches [sample_metric] = [[sample_metric]]"
proof -
  have b: "batches [sample_metric] = [[sample_metric]]"
    by (simp add: batches.simps [of "[sample_metric]"] batches.simps [of "[]"])
  have d: "delete_gte_score 0 [old_metric] = []"
    by (simp add: delete_gte_score_def score_gte_def old_metric_def)
  have u: "upsert [sample_metric] [] = [sample_metric]"
    by (simp add: upsert_def upsert_row_def)
  from upload_writes_batch_prefix [of "[sample_metric]" "\<lambda>k. False" "[old_metric]"]
  have "upload_to_supabase (\<lambda>k. False) [old_metric] [sample_metric] = (True, [sample_metric])"
    by (auto simp: b d u)
  moreover from upload_writes_batch_prefix [of "[sample_metric]" "\<lambda>k. k = 0" "[old_metric]"]
  have "upload_to_supabase (\<lambda>k. k = 0) [old_metric] [sample_metric] = (False, [old_metric])"
    by simp
  moreover from upload_writes_batch_prefix [of "[]" "\<lambda>k. False" "[old_metric]"]
  have "upload_to_supabase (\<lambda>k. False) [old_metric] [] = (False, [old_metric])"
    by simp
  ultimately show ?thesis using b by simp
qed

subsection \<open>C9: repeated runs\<close>

text \<open>
  Claim C9. Two runs on the same raw records with the same reference time, whatever
  identifiers and clock readings each run draws, emit the same sequence of records once
  the keys \<open>id\<close>, \<open>created_at\<close> and \<open>expires_at\<close> are removed (the timestamp the
  specification calls \<open>computed_at\<close> is the key \<open>created_at\<close> of the code); what
  remains of each record is its latitude, longitude, metric type, score, question and
  description.
\<close>

theorem rerun_same_content:
  "map content_of (calculate_safety_metrics eff (frame (process_crime_data now crime_data))) =
   map content_of (calculate_safety_metrics eff' (frame (process_crime_data now crime_data)))
   \<and> map (map fst \<circ> content_of) (calculate_safety_metrics eff (frame (process_crime_data now crime_data)))
     = replicate (length (calculate_safety_metrics eff (frame (process_crime_data now crime_data))))
         [''latitude'', ''longitude'', ''metric_type'', ''score'', ''question'', ''description'']"
proof -
  let ?out = "calculate_safety_metrics eff (frame (process_crime_data now crime_data))"
  let ?keys = "[''latitude'', ''longitude'', ''metric_type'', ''score'', ''question'', ''description'']"
  have "(map fst \<circ> content_of) x = ?keys" if "x \<in> set ?out" for x
    using calculate_sound [OF that] by (auto simp: scored_def cell_metric_def Let_def content_of_def)
  then have "map (map fst \<circ> content_of) ?out = map (\<lambda>x. ?keys) ?out"
    by (intro map_cong) auto
  then have "map (map fst \<circ> content_of) ?out = replicate (length ?out) ?keys"
    by (simp only: map_replicate_const)
  with content_of_calculate [of eff _ eff'] show ?thesis by simp
qed

subsection \<open>C10: weight of a non-empty cell\<close>



end
